theory Spec2Isabelle
  imports Complex_Main
begin

section \<open>Numeric values\<close>

text \<open>
  The class \<open>Uncertainty\<close> of \<open>auto_uncertainties/uncertainty.py\<close> pairs a nominal
  value with an error. Both are either Python numbers or numpy arrays of floats. A float
  is a real number, plus or minus infinity, or \<open>nan\<close>; rounding, overflow and signed zeros
  are not modelled. An array is its shape together with its elements in row-major order.
  A numpy scalar such as \<open>np.float64\<close> is identified with the Python number of the same
  value.
\<close>

datatype num = Fin real | PInf | MInf | NaN

datatype val = PyNum num | NdArray "nat list" "num list"

text \<open>
  What a call can raise. \<open>DanglingRef\<close> marks a reference that is not in the store,
  which Python cannot produce.
\<close>

datatype exn = AssertionError | NegativeStdDevError | ValueError | ZeroDivisionError
  | TypeError | AttributeError | Exception | DanglingRef

subsection \<open>Arithmetic on floats\<close>

text \<open>
  The operations of IEEE arithmetic as numpy applies them to the elements of an array:
  \<open>nan\<close> is contagious, \<open>inf - inf\<close>, \<open>0 * inf\<close>, \<open>inf / inf\<close> and \<open>0 / 0\<close> are \<open>nan\<close>, and a
  nonzero number divided by zero is an infinity.
\<close>

fun neg_num :: "num \<Rightarrow> num" where
  "neg_num (Fin a) = Fin (- a)"
| "neg_num PInf = MInf"
| "neg_num MInf = PInf"
| "neg_num NaN = NaN"

fun abs_num :: "num \<Rightarrow> num" where
  "abs_num (Fin a) = Fin \<bar>a\<bar>"
| "abs_num PInf = PInf"
| "abs_num MInf = PInf"
| "abs_num NaN = NaN"

fun add_num :: "num \<Rightarrow> num \<Rightarrow> num" where
  "add_num (Fin a) (Fin b) = Fin (a + b)"
| "add_num (Fin a) PInf = PInf"
| "add_num (Fin a) MInf = MInf"
| "add_num PInf (Fin b) = PInf"
| "add_num PInf PInf = PInf"
| "add_num MInf (Fin b) = MInf"
| "add_num MInf MInf = MInf"
| "add_num x y = NaN"

definition sub_num :: "num \<Rightarrow> num \<Rightarrow> num" where
  "sub_num x y = add_num x (neg_num y)"

fun mul_num :: "num \<Rightarrow> num \<Rightarrow> num" where
  "mul_num (Fin a) (Fin b) = Fin (a * b)"
| "mul_num (Fin a) PInf = (if a = 0 then NaN else if 0 < a then PInf else MInf)"
| "mul_num (Fin a) MInf = (if a = 0 then NaN else if 0 < a then MInf else PInf)"
| "mul_num PInf (Fin b) = (if b = 0 then NaN else if 0 < b then PInf else MInf)"
| "mul_num MInf (Fin b) = (if b = 0 then NaN else if 0 < b then MInf else PInf)"
| "mul_num PInf PInf = PInf"
| "mul_num PInf MInf = MInf"
| "mul_num MInf PInf = MInf"
| "mul_num MInf MInf = PInf"
| "mul_num x y = NaN"

fun div_num :: "num \<Rightarrow> num \<Rightarrow> num" where
  "div_num (Fin a) (Fin b) =
     (if b = 0 then (if a = 0 then NaN else if 0 < a then PInf else MInf) else Fin (a / b))"
| "div_num (Fin a) PInf = Fin 0"
| "div_num (Fin a) MInf = Fin 0"
| "div_num PInf (Fin b) = (if b < 0 then MInf else PInf)"
| "div_num MInf (Fin b) = (if b < 0 then PInf else MInf)"
| "div_num x y = NaN"

text \<open>
  \<open>//\<close> rounds the quotient down and \<open>%\<close> is the remainder that goes with it, with the
  sign of the divisor. By zero, numpy's floor division is the true division and its
  remainder is \<open>nan\<close>; an infinite dividend gives \<open>nan\<close>.
\<close>

fun floordiv_num :: "num \<Rightarrow> num \<Rightarrow> num" where
  "floordiv_num (Fin a) (Fin b) =
     (if b = 0 then div_num (Fin a) (Fin b) else Fin (of_int \<lfloor>a / b\<rfloor>))"
| "floordiv_num (Fin a) PInf = (if a < 0 then Fin (- 1) else Fin 0)"
| "floordiv_num (Fin a) MInf = (if 0 < a then Fin (- 1) else Fin 0)"
| "floordiv_num PInf (Fin b) = (if b = 0 then PInf else NaN)"
| "floordiv_num MInf (Fin b) = (if b = 0 then MInf else NaN)"
| "floordiv_num x y = NaN"

fun mod_num :: "num \<Rightarrow> num \<Rightarrow> num" where
  "mod_num (Fin a) (Fin b) = (if b = 0 then NaN else Fin (a - b * of_int \<lfloor>a / b\<rfloor>))"
| "mod_num (Fin a) PInf = (if a < 0 then PInf else Fin a)"
| "mod_num (Fin a) MInf = (if 0 < a then MInf else Fin a)"
| "mod_num x y = NaN"

fun square_num :: "num \<Rightarrow> num" where
  "square_num (Fin a) = Fin (a ^ 2)"
| "square_num PInf = PInf"
| "square_num MInf = PInf"
| "square_num NaN = NaN"

fun sqrt_num :: "num \<Rightarrow> num" where
  "sqrt_num (Fin a) = (if a < 0 then NaN else Fin (sqrt a))"
| "sqrt_num PInf = PInf"
| "sqrt_num MInf = NaN"
| "sqrt_num NaN = NaN"

text \<open>Comparisons: every comparison with \<open>nan\<close> but \<open>!=\<close> is false.\<close>

fun lt_num :: "num \<Rightarrow> num \<Rightarrow> bool" where
  "lt_num (Fin a) (Fin b) = (a < b)"
| "lt_num (Fin a) PInf = True"
| "lt_num MInf (Fin b) = True"
| "lt_num MInf PInf = True"
| "lt_num x y = False"

fun eq_num :: "num \<Rightarrow> num \<Rightarrow> bool" where
  "eq_num NaN y = False"
| "eq_num x NaN = False"
| "eq_num x y = (x = y)"

definition le_num :: "num \<Rightarrow> num \<Rightarrow> bool" where
  "le_num x y = (lt_num x y \<or> eq_num x y)"

definition gt_num :: "num \<Rightarrow> num \<Rightarrow> bool" where
  "gt_num x y = lt_num y x"

definition ge_num :: "num \<Rightarrow> num \<Rightarrow> bool" where
  "ge_num x y = le_num y x"

subsection \<open>Shapes\<close>

text \<open>\<open>np.shape\<close>: the empty tuple for a number, the array's shape otherwise.\<close>

fun shape :: "val \<Rightarrow> nat list" where
  "shape (PyNum x) = []"
| "shape (NdArray s d) = s"

text \<open>The elements of \<open>np.atleast_1d(v)\<close>, in order.\<close>

fun atleast_1d :: "val \<Rightarrow> num list" where
  "atleast_1d (PyNum x) = [x]"
| "atleast_1d (NdArray s d) = d"

text \<open>
  A ufunc on a zero-dimensional array returns a numpy scalar, on any other array an
  array.
\<close>

definition result_of :: "nat list \<Rightarrow> num list \<Rightarrow> val" where
  "result_of s d = (case (s, d) of ([], [x]) \<Rightarrow> PyNum x | _ \<Rightarrow> NdArray s d)"

definition bind :: "exn + 'a \<Rightarrow> ('a \<Rightarrow> exn + 'b) \<Rightarrow> exn + 'b" where
  "bind m f = (case m of Inl e \<Rightarrow> Inl e | Inr x \<Rightarrow> f x)"

subsection \<open>Broadcasting\<close>

text \<open>
  numpy aligns two shapes at their last axes; two lengths are compatible when they are
  equal or one of them is 1. \<open>broadcast_dims\<close> works on the reversed shapes.
\<close>

fun broadcast_dims :: "nat list \<Rightarrow> nat list \<Rightarrow> nat list option" where
  "broadcast_dims [] ys = Some ys"
| "broadcast_dims (x # xs) [] = Some (x # xs)"
| "broadcast_dims (x # xs) (y # ys) =
     (if x = y \<or> y = 1 then map_option ((#) x) (broadcast_dims xs ys)
      else if x = 1 then map_option ((#) y) (broadcast_dims xs ys)
      else None)"

definition broadcast_shapes :: "nat list \<Rightarrow> nat list \<Rightarrow> nat list option" where
  "broadcast_shapes s t = map_option rev (broadcast_dims (rev s) (rev t))"

definition chunks :: "nat \<Rightarrow> nat \<Rightarrow> 'a list \<Rightarrow> 'a list list" where
  "chunks n k d = map (\<lambda>i. take n (drop (i * n) d)) [0..<k]"

text \<open>
  \<open>stretch s r d\<close>: the elements \<open>d\<close> of an array of shape \<open>s\<close>, repeated along the axes
  of length 1 to fill the shape \<open>r\<close> (both shapes of the same rank).
\<close>

fun stretch :: "nat list \<Rightarrow> nat list \<Rightarrow> 'a list \<Rightarrow> 'a list" where
  "stretch (s # ss) (r # rs) d =
     (if s = r then concat (map (stretch ss rs) (chunks (prod_list ss) s d))
      else concat (replicate r (stretch ss rs d)))"
| "stretch ss rs d = d"

definition broadcast_to :: "nat list \<Rightarrow> nat list \<Rightarrow> 'a list \<Rightarrow> 'a list" where
  "broadcast_to s r d = stretch (replicate (length r - length s) 1 @ s) r d"

subsection \<open>Elementwise operations\<close>

text \<open>
  A binary operator on two values. \<open>f\<close> is the operator on floats as numpy computes it.
  \<open>divides\<close> says that the operator is a division: between two Python numbers a zero
  divisor then raises \<open>ZeroDivisionError\<close>, where numpy goes on with an infinity or
  \<open>nan\<close>. Arrays whose shapes do not broadcast raise \<open>ValueError\<close>.
\<close>

fun ufunc2 :: "bool \<Rightarrow> (num \<Rightarrow> num \<Rightarrow> num) \<Rightarrow> val \<Rightarrow> val \<Rightarrow> exn + val" where
  "ufunc2 divides f (PyNum x) (PyNum y) =
     (if divides \<and> y = Fin 0 then Inl ZeroDivisionError else Inr (PyNum (f x y)))"
| "ufunc2 divides f (PyNum x) (NdArray t e) = Inr (result_of t (map (f x) e))"
| "ufunc2 divides f (NdArray s d) (PyNum y) = Inr (result_of s (map (\<lambda>a. f a y) d))"
| "ufunc2 divides f (NdArray s d) (NdArray t e) =
     (case broadcast_shapes s t of
        None \<Rightarrow> Inl ValueError
      | Some r \<Rightarrow> Inr (result_of r (map2 f (broadcast_to s r d) (broadcast_to t r e))))"

fun ufunc1 :: "(num \<Rightarrow> num) \<Rightarrow> val \<Rightarrow> val" where
  "ufunc1 f (PyNum x) = PyNum (f x)"
| "ufunc1 f (NdArray s d) = result_of s (map f d)"

definition add_val :: "val \<Rightarrow> val \<Rightarrow> exn + val" where
  "add_val = ufunc2 False add_num"

definition sub_val :: "val \<Rightarrow> val \<Rightarrow> exn + val" where
  "sub_val = ufunc2 False sub_num"

definition mul_val :: "val \<Rightarrow> val \<Rightarrow> exn + val" where
  "mul_val = ufunc2 False mul_num"

definition truediv_val :: "val \<Rightarrow> val \<Rightarrow> exn + val" where
  "truediv_val = ufunc2 True div_num"

definition floordiv_val :: "val \<Rightarrow> val \<Rightarrow> exn + val" where
  "floordiv_val = ufunc2 True floordiv_num"

definition mod_val :: "val \<Rightarrow> val \<Rightarrow> exn + val" where
  "mod_val = ufunc2 True mod_num"

text \<open>\<open>v ** 2\<close>, \<open>np.sqrt(v)\<close>, \<open>abs(v)\<close>, \<open>operator.neg(v)\<close> and \<open>operator.pos(v)\<close>.\<close>

definition square :: "val \<Rightarrow> val" where
  "square = ufunc1 square_num"

definition sqrt_val :: "val \<Rightarrow> val" where
  "sqrt_val = ufunc1 sqrt_num"

definition abs_val :: "val \<Rightarrow> val" where
  "abs_val = ufunc1 abs_num"

definition neg_val :: "val \<Rightarrow> val" where
  "neg_val = ufunc1 neg_num"

definition pos_val :: "val \<Rightarrow> val" where
  "pos_val = ufunc1 (\<lambda>x. x)"

text \<open>
  The truth value of a number or an array. A number is true unless it is zero (\<open>nan\<close>
  and the infinities are true). An array of one element has the truth value of that
  element, an empty array is false, and a longer one raises \<open>ValueError\<close> ("the truth
  value of an array with more than one element is ambiguous").
\<close>

fun py_bool :: "val \<Rightarrow> exn + bool" where
  "py_bool (PyNum x) = Inr (x \<noteq> Fin 0)"
| "py_bool (NdArray s d) =
     (case d of [] \<Rightarrow> Inr False | [x] \<Rightarrow> Inr (x \<noteq> Fin 0) | _ \<Rightarrow> Inl ValueError)"

section \<open>The class Uncertainty\<close>

text \<open>An instance holds the two attributes \<open>_nom\<close> and \<open>_err\<close>.\<close>

record uncertainty =
  nom :: val
  err :: val

text \<open>
  \<open>Uncertainty.__new__\<close>: the assertion on the shapes comes first, then the test
  \<open>np.any(np.atleast_1d(err) < 0)\<close> for a negative error.
\<close>

definition Uncertainty :: "val \<Rightarrow> val \<Rightarrow> exn + uncertainty" where
  "Uncertainty v e =
     (if shape v \<noteq> shape e then Inl AssertionError
      else if list_ex (\<lambda>x. lt_num x (Fin 0)) (atleast_1d e) then Inl NegativeStdDevError
      else Inr \<lparr>nom = v, err = e\<rparr>)"

text \<open>The properties \<open>value\<close> and \<open>error\<close>.\<close>

definition value_u :: "uncertainty \<Rightarrow> val" where
  "value_u self = nom self"

definition error_u :: "uncertainty \<Rightarrow> val" where
  "error_u self = err self"

text \<open>
  The right operand of an operator: another instance (\<open>isinstance(other, Uncertainty)\<close>)
  or a plain number or array.
\<close>

datatype operand = Unc uncertainty | Plain val

text \<open>
  The property \<open>relative\<close>: \<open>_err / _nom\<close> when \<open>_nom != 0\<close> is true, the number \<open>np.NaN\<close>
  otherwise. The test takes the truth value of \<open>_nom != 0\<close>, which for an array is that
  of the array itself.
\<close>

definition relative :: "uncertainty \<Rightarrow> exn + val" where
  "relative self =
     bind (py_bool (nom self)) (\<lambda>b.
       if b then truediv_val (err self) (nom self) else Inr (PyNum NaN))"

definition rel :: "uncertainty \<Rightarrow> exn + val" where
  "rel self = relative self"

subsection \<open>Arithmetic\<close>

text \<open>
  The methods \<open>__add__\<close>, \<open>__sub__\<close>, ... are named \<open>add_u\<close>, \<open>sub_u\<close>, ...; each
  follows the statements of its method in order, so that the first exception wins.
\<close>

definition add_u :: "uncertainty \<Rightarrow> operand \<Rightarrow> exn + uncertainty" where
  "add_u self other =
     (case other of
        Unc oth \<Rightarrow>
          bind (add_val (nom self) (nom oth)) (\<lambda>new_mag.
          bind (add_val (square (err self)) (square (err oth))) (\<lambda>s.
          Uncertainty new_mag (sqrt_val s)))
      | Plain y \<Rightarrow>
          bind (add_val (nom self) y) (\<lambda>new_mag.
          Uncertainty new_mag (err self)))"

definition radd_u :: "uncertainty \<Rightarrow> operand \<Rightarrow> exn + uncertainty" where
  "radd_u = add_u"

definition sub_u :: "uncertainty \<Rightarrow> operand \<Rightarrow> exn + uncertainty" where
  "sub_u self other =
     (case other of
        Unc oth \<Rightarrow>
          bind (sub_val (nom self) (nom oth)) (\<lambda>new_mag.
          bind (add_val (square (err self)) (square (err oth))) (\<lambda>s.
          Uncertainty new_mag (sqrt_val s)))
      | Plain y \<Rightarrow>
          bind (sub_val (nom self) y) (\<lambda>new_mag.
          Uncertainty new_mag (err self)))"

definition mul_u :: "uncertainty \<Rightarrow> operand \<Rightarrow> exn + uncertainty" where
  "mul_u self other =
     (case other of
        Unc oth \<Rightarrow>
          bind (mul_val (nom self) (nom oth)) (\<lambda>new_mag.
          bind (rel self) (\<lambda>r1.
          bind (rel oth) (\<lambda>r2.
          bind (add_val (square r1) (square r2)) (\<lambda>s.
          bind (mul_val new_mag (sqrt_val s)) (\<lambda>new_err.
          Uncertainty new_mag new_err)))))
      | Plain y \<Rightarrow>
          bind (mul_val (nom self) y) (\<lambda>new_mag.
          bind (mul_val (err self) y) (\<lambda>new_err.
          Uncertainty new_mag new_err)))"

definition rmul_u :: "uncertainty \<Rightarrow> operand \<Rightarrow> exn + uncertainty" where
  "rmul_u = mul_u"

definition truediv_u :: "uncertainty \<Rightarrow> operand \<Rightarrow> exn + uncertainty" where
  "truediv_u self other =
     (case other of
        Unc oth \<Rightarrow>
          bind (truediv_val (nom self) (nom oth)) (\<lambda>new_mag.
          bind (rel self) (\<lambda>r1.
          bind (rel oth) (\<lambda>r2.
          bind (add_val (square r1) (square r2)) (\<lambda>s.
          bind (mul_val new_mag (sqrt_val s)) (\<lambda>new_err.
          Uncertainty new_mag new_err)))))
      | Plain y \<Rightarrow>
          bind (truediv_val (nom self) y) (\<lambda>new_mag.
          bind (truediv_val (err self) y) (\<lambda>new_err.
          Uncertainty new_mag new_err)))"

definition rtruediv_u :: "uncertainty \<Rightarrow> operand \<Rightarrow> exn + uncertainty" where
  "rtruediv_u self other =
     (case other of
        Unc oth \<Rightarrow> Inl Exception
      | Plain y \<Rightarrow>
          bind (truediv_val y (nom self)) (\<lambda>new_mag.
          bind (rel self) (\<lambda>r.
          bind (mul_val new_mag r) (\<lambda>new_err.
          Uncertainty new_mag new_err))))"

text \<open>
  Floor division, modulo and power set the error to the Python number \<open>0.0\<close>.
  \<open>__pow__\<close> and \<open>__rpow__\<close> compute their nominal value with \<open>%\<close>, as the source does.
\<close>

definition floordiv_u :: "uncertainty \<Rightarrow> operand \<Rightarrow> exn + uncertainty" where
  "floordiv_u self other =
     (case other of
        Unc oth \<Rightarrow>
          bind (floordiv_val (nom self) (nom oth)) (\<lambda>new_mag.
          Uncertainty new_mag (PyNum (Fin 0)))
      | Plain y \<Rightarrow>
          bind (floordiv_val (nom self) y) (\<lambda>new_mag.
          Uncertainty new_mag (PyNum (Fin 0))))"

definition rfloordiv_u :: "uncertainty \<Rightarrow> operand \<Rightarrow> exn + uncertainty" where
  "rfloordiv_u self other =
     (case other of
        Unc oth \<Rightarrow> truediv_u oth (Unc self)
      | Plain y \<Rightarrow>
          bind (floordiv_val y (nom self)) (\<lambda>new_mag.
          Uncertainty new_mag (PyNum (Fin 0))))"

definition mod_u :: "uncertainty \<Rightarrow> operand \<Rightarrow> exn + uncertainty" where
  "mod_u self other =
     (case other of
        Unc oth \<Rightarrow>
          bind (mod_val (nom self) (nom oth)) (\<lambda>new_mag.
          Uncertainty new_mag (PyNum (Fin 0)))
      | Plain y \<Rightarrow>
          bind (mod_val (nom self) y) (\<lambda>new_mag.
          Uncertainty new_mag (PyNum (Fin 0))))"

text \<open>
  \<open>__rmod__\<close> and \<open>__rpow__\<close> do not test the type of \<open>other\<close>; Python calls a reflected
  method only when the left operand is not an instance, so \<open>other\<close> is a plain value.
\<close>

definition rmod_u :: "uncertainty \<Rightarrow> val \<Rightarrow> exn + uncertainty" where
  "rmod_u self other =
     bind (mod_val other (nom self)) (\<lambda>new_mag.
     Uncertainty new_mag (PyNum (Fin 0)))"

definition pow_u :: "uncertainty \<Rightarrow> operand \<Rightarrow> exn + uncertainty" where
  "pow_u self other =
     (case other of
        Unc oth \<Rightarrow>
          bind (mod_val (nom self) (nom oth)) (\<lambda>new_mag.
          Uncertainty new_mag (PyNum (Fin 0)))
      | Plain y \<Rightarrow>
          bind (mod_val (nom self) y) (\<lambda>new_mag.
          Uncertainty new_mag (PyNum (Fin 0))))"

definition rpow_u :: "uncertainty \<Rightarrow> val \<Rightarrow> exn + uncertainty" where
  "rpow_u self other =
     bind (mod_val other (nom self)) (\<lambda>new_mag.
     Uncertainty new_mag (PyNum (Fin 0)))"

definition abs_u :: "uncertainty \<Rightarrow> exn + uncertainty" where
  "abs_u self = Uncertainty (abs_val (nom self)) (err self)"

definition pos_u :: "uncertainty \<Rightarrow> exn + uncertainty" where
  "pos_u self = Uncertainty (pos_val (nom self)) (err self)"

definition neg_u :: "uncertainty \<Rightarrow> exn + uncertainty" where
  "neg_u self = Uncertainty (neg_val (nom self)) (err self)"

text \<open>
  \<open>__rsub__\<close> evaluates \<open>-self.__sub__(other)\<close> as an expression statement and falls off
  the end of the method: the result is Python's \<open>None\<close>, modelled by \<open>None\<close>.
\<close>

definition rsub_u :: "uncertainty \<Rightarrow> operand \<Rightarrow> exn + uncertainty option" where
  "rsub_u self other =
     bind (sub_u self other) (\<lambda>d.
     bind (neg_u d) (\<lambda>n.
     Inr None))"

text \<open>\<open>__copy__\<close>: the copies of the two attributes are equal to the attributes.\<close>

definition copy_u :: "uncertainty \<Rightarrow> exn + uncertainty" where
  "copy_u self = Uncertainty (nom self) (err self)"

text \<open>
  \<open>from_sequence\<close> stores each item's \<open>_nom\<close> and \<open>_err\<close> into two fresh arrays of the
  sequence's length. An array element takes a number or an array of one element;
  anything else raises \<open>ValueError\<close>.
\<close>

fun scalar_of :: "val \<Rightarrow> exn + num" where
  "scalar_of (PyNum x) = Inr x"
| "scalar_of (NdArray s d) = (case d of [x] \<Rightarrow> Inr x | _ \<Rightarrow> Inl ValueError)"

fun fill_arrays :: "uncertainty list \<Rightarrow> exn + (num list \<times> num list)" where
  "fill_arrays [] = Inr ([], [])"
| "fill_arrays (seq_i # rest) =
     bind (scalar_of (nom seq_i)) (\<lambda>v.
     bind (scalar_of (err seq_i)) (\<lambda>e.
     bind (fill_arrays rest) (\<lambda>(vs, es).
     Inr (v # vs, e # es))))"

definition from_sequence :: "uncertainty list \<Rightarrow> exn + uncertainty" where
  "from_sequence seq =
     bind (fill_arrays seq) (\<lambda>(vs, es).
     Uncertainty (NdArray [length seq] vs) (NdArray [length seq] es))"

definition from_list :: "uncertainty list \<Rightarrow> exn + uncertainty" where
  "from_list u_list = from_sequence u_list"

text \<open>
  \<open>__iter__\<close> zips the two attributes along their first axis and builds an instance
  from each pair. A number and a zero-dimensional array cannot be iterated
  (\<open>TypeError\<close>). The generator yields its items one by one: the list holds, for each
  pair, the instance yielded or the exception raised on reaching it.
\<close>

fun rows_of :: "val \<Rightarrow> exn + val list" where
  "rows_of (PyNum x) = Inl TypeError"
| "rows_of (NdArray [] d) = Inl TypeError"
| "rows_of (NdArray (n # s) d) = Inr (map (result_of s) (chunks (prod_list s) n d))"

definition iter_u :: "uncertainty \<Rightarrow> exn + (exn + uncertainty) list" where
  "iter_u self =
     bind (rows_of (nom self)) (\<lambda>vs.
     bind (rows_of (err self)) (\<lambda>es.
     Inr (map (\<lambda>(v, e). Uncertainty v e) (zip vs es))))"

text \<open>
  The properties \<open>real\<close> and \<open>imag\<close>: the real part of a real number or array is itself,
  its imaginary part is zero everywhere.
\<close>

fun imag_val :: "val \<Rightarrow> val" where
  "imag_val (PyNum x) = PyNum (Fin 0)"
| "imag_val (NdArray s d) = NdArray s (map (\<lambda>x. Fin 0) d)"

definition real_u :: "uncertainty \<Rightarrow> exn + uncertainty" where
  "real_u self = Uncertainty (nom self) (err self)"

definition imag_u :: "uncertainty \<Rightarrow> exn + uncertainty" where
  "imag_u self = Uncertainty (imag_val (nom self)) (imag_val (err self))"

subsection \<open>Comparison and truth value\<close>

text \<open>
  A comparison of two values gives a Python bool or an array of bools; arrays whose
  shapes do not broadcast raise \<open>ValueError\<close> (numpy 1.25 and later, also for \<open>==\<close>).
\<close>

datatype cmpval = PyBool bool | BoolArray "nat list" "bool list"

definition cmp_result :: "nat list \<Rightarrow> bool list \<Rightarrow> cmpval" where
  "cmp_result s d = (case (s, d) of ([], [b]) \<Rightarrow> PyBool b | _ \<Rightarrow> BoolArray s d)"

fun cmp_val :: "(num \<Rightarrow> num \<Rightarrow> bool) \<Rightarrow> val \<Rightarrow> val \<Rightarrow> exn + cmpval" where
  "cmp_val f (PyNum x) (PyNum y) = Inr (PyBool (f x y))"
| "cmp_val f (PyNum x) (NdArray t e) = Inr (cmp_result t (map (f x) e))"
| "cmp_val f (NdArray s d) (PyNum y) = Inr (cmp_result s (map (\<lambda>a. f a y) d))"
| "cmp_val f (NdArray s d) (NdArray t e) =
     (case broadcast_shapes s t of
        None \<Rightarrow> Inl ValueError
      | Some r \<Rightarrow> Inr (cmp_result r (map2 f (broadcast_to s r d) (broadcast_to t r e))))"

definition eq_val :: "val \<Rightarrow> val \<Rightarrow> exn + cmpval" where
  "eq_val = cmp_val eq_num"

definition operator_lt :: "val \<Rightarrow> val \<Rightarrow> exn + cmpval" where
  "operator_lt = cmp_val lt_num"

definition operator_le :: "val \<Rightarrow> val \<Rightarrow> exn + cmpval" where
  "operator_le = cmp_val le_num"

definition operator_ge :: "val \<Rightarrow> val \<Rightarrow> exn + cmpval" where
  "operator_ge = cmp_val ge_num"

definition operator_gt :: "val \<Rightarrow> val \<Rightarrow> exn + cmpval" where
  "operator_gt = cmp_val gt_num"

definition eq_u :: "uncertainty \<Rightarrow> operand \<Rightarrow> exn + cmpval" where
  "eq_u self other =
     (case other of
        Unc oth \<Rightarrow> eq_val (nom self) (nom oth)
      | Plain y \<Rightarrow> eq_val (nom self) y)"

definition ne_u :: "uncertainty \<Rightarrow> operand \<Rightarrow> exn + cmpval" where
  "ne_u self other =
     bind (eq_u self other) (\<lambda>out.
       case out of
         BoolArray s d \<Rightarrow> Inr (BoolArray s (map Not d))
       | PyBool b \<Rightarrow> Inr (PyBool (\<not> b)))"

definition compare :: "uncertainty \<Rightarrow> operand \<Rightarrow> (val \<Rightarrow> val \<Rightarrow> 'r) \<Rightarrow> 'r" where
  "compare self other op =
     (case other of
        Unc oth \<Rightarrow> op (nom self) (nom oth)
      | Plain y \<Rightarrow> op (nom self) y)"

definition lt_u :: "uncertainty \<Rightarrow> operand \<Rightarrow> exn + cmpval" where
  "lt_u self other = compare self other operator_lt"

definition le_u :: "uncertainty \<Rightarrow> operand \<Rightarrow> exn + cmpval" where
  "le_u self other = compare self other operator_le"

definition ge_u :: "uncertainty \<Rightarrow> operand \<Rightarrow> exn + cmpval" where
  "ge_u self other = compare self other operator_ge"

definition gt_u :: "uncertainty \<Rightarrow> operand \<Rightarrow> exn + cmpval" where
  "gt_u self other = compare self other operator_gt"

definition bool_u :: "uncertainty \<Rightarrow> exn + bool" where
  "bool_u self = py_bool (nom self)"

subsection \<open>Instances in a store, and the in-place operators\<close>

text \<open>
  An instance has an identity: a reference into a store of instances. \<open>fresh\<close> is the
  next reference the store hands out. Arrays are values in this model; the in-place
  methods rebind the attributes of the instance and never write into an array.
\<close>

type_synonym ref = nat

record store =
  cells :: "ref \<Rightarrow> uncertainty option"
  fresh :: ref

datatype argument = Ref ref | Val val

definition alloc :: "store \<Rightarrow> uncertainty \<Rightarrow> ref \<times> store" where
  "alloc h u = (fresh h, h\<lparr>cells := (cells h)(fresh h \<mapsto> u), fresh := Suc (fresh h)\<rparr>)"

definition deref :: "store \<Rightarrow> argument \<Rightarrow> exn + operand" where
  "deref h a =
     (case a of
        Ref r \<Rightarrow> (case cells h r of None \<Rightarrow> Inl DanglingRef | Some u \<Rightarrow> Inr (Unc u))
      | Val v \<Rightarrow> Inr (Plain v))"

text \<open>
  Modelled from the spec: \<open>is_np_duck_array\<close> of \<open>auto_uncertainties/util.py\<close>, which is
  not among the sources. The spec tells array-backed nominal values from scalar-backed
  ones; the source passes it the type of \<open>_nom\<close>.
\<close>

fun is_np_duck_array :: "val \<Rightarrow> bool" where
  "is_np_duck_array (PyNum x) = False"
| "is_np_duck_array (NdArray s d) = True"

text \<open>
  The seven in-place methods have one body and differ in the operator \<open>f\<close> they apply:
  \<open>new = f(self, other)\<close>; for an array-backed \<open>_nom\<close> the attributes \<open>_err\<close> and \<open>_nom\<close>
  of \<open>self\<close> are set to those of \<open>new\<close> and \<open>self\<close> is returned, otherwise \<open>new\<close> is
  returned. The temporary \<open>new\<close> of the first branch is unreachable afterwards and gets
  no cell.
\<close>

definition inplace ::
  "(uncertainty \<Rightarrow> operand \<Rightarrow> exn + uncertainty) \<Rightarrow> store \<Rightarrow> ref \<Rightarrow> argument \<Rightarrow> exn + (ref \<times> store)" where
  "inplace f h self other =
     (case cells h self of
        None \<Rightarrow> Inl DanglingRef
      | Some s \<Rightarrow>
          bind (deref h other) (\<lambda>oth.
          bind (f s oth) (\<lambda>new.
            if is_np_duck_array (nom s)
            then Inr (self, h\<lparr>cells := (cells h)(self \<mapsto> s\<lparr>err := err new, nom := nom new\<rparr>)\<rparr>)
            else Inr (alloc h new))))"


definition isub_u :: "store \<Rightarrow> ref \<Rightarrow> argument \<Rightarrow> exn + (ref \<times> store)" where
  "isub_u = inplace sub_u"

definition imul_u :: "store \<Rightarrow> ref \<Rightarrow> argument \<Rightarrow> exn + (ref \<times> store)" where
  "imul_u = inplace mul_u"

definition itruediv_u :: "store \<Rightarrow> ref \<Rightarrow> argument \<Rightarrow> exn + (ref \<times> store)" where
  "itruediv_u = inplace truediv_u"

definition ifloordiv_u :: "store \<Rightarrow> ref \<Rightarrow> argument \<Rightarrow> exn + (ref \<times> store)" where
  "ifloordiv_u = inplace floordiv_u"

definition imod_u :: "store \<Rightarrow> ref \<Rightarrow> argument \<Rightarrow> exn + (ref \<times> store)" where
  "imod_u = inplace mod_u"

definition ipow_u :: "store \<Rightarrow> ref \<Rightarrow> argument \<Rightarrow> exn + (ref \<times> store)" where
  "ipow_u = inplace pow_u"

text \<open>
  The setter of the property \<open>shape\<close> (lines 395 to 398) assigns the new shape to the
  array in \<open>_nom\<close> and then to the array in \<open>_err\<close>. Assigning a shape to an array
  keeps its elements and needs their number to fit (\<open>ValueError\<close> otherwise); a number
  has no attribute \<open>shape\<close> that can be assigned (\<open>AttributeError\<close>). The arrays of this
  model are contiguous. An exception in the second assignment leaves the first one
  done, so the method gives back what it raised, if anything, together with the store
  it leaves behind.
\<close>

fun set_shape :: "val \<Rightarrow> nat list \<Rightarrow> exn + val" where
  "set_shape (PyNum x) new_shape = Inl AttributeError"
| "set_shape (NdArray s d) new_shape =
     (if prod_list new_shape = length d then Inr (NdArray new_shape d) else Inl ValueError)"

definition shape_setter :: "store \<Rightarrow> ref \<Rightarrow> nat list \<Rightarrow> (exn + unit) \<times> store" where
  "shape_setter h self new_shape =
     (case cells h self of
        None \<Rightarrow> (Inl DanglingRef, h)
      | Some s \<Rightarrow>
          (case set_shape (nom s) new_shape of
             Inl e \<Rightarrow> (Inl e, h)
           | Inr n \<Rightarrow>
               (case set_shape (err s) new_shape of
                  Inl e \<Rightarrow> (Inl e, h\<lparr>cells := (cells h)(self \<mapsto> s\<lparr>nom := n\<rparr>)\<rparr>)
                | Inr e' \<Rightarrow>
                    (Inr (), h\<lparr>cells := (cells h)(self \<mapsto> s\<lparr>nom := n, err := e'\<rparr>)\<rparr>))))"

subsection \<open>Invariants\<close>

text \<open>
  What \<open>__new__\<close> checks, as predicates on an instance: the two attributes have one
  shape, and no element of the error is negative. A store is in order when every cell
  handed out so far holds an instance whose attributes have one shape.
\<close>

definition same_shape :: "uncertainty \<Rightarrow> bool" where
  "same_shape u = (shape (nom u) = shape (err u))"

definition valid :: "uncertainty \<Rightarrow> bool" where
  "valid u = (same_shape u \<and> \<not> list_ex (\<lambda>x. lt_num x (Fin 0)) (atleast_1d (err u)))"

definition store_same_shape :: "store \<Rightarrow> bool" where
  "store_same_shape h =
     list_all (\<lambda>r. case cells h r of None \<Rightarrow> True | Some u \<Rightarrow> same_shape u) [0..<fresh h]"


definition zero_dim_store :: store where
  "zero_dim_store =
     \<lparr>cells = [0 \<mapsto> \<lparr>nom = NdArray [] [Fin 1], err = PyNum (Fin (1/2))\<rparr>], fresh = 1\<rparr>"

section \<open>Basic facts\<close>

lemma bind_Inr: "bind m f = Inr u \<Longrightarrow> \<exists>x. m = Inr x \<and> f x = Inr u"
  by (cases m) (simp_all add: bind_def)

lemma bind_Inr_simp [simp]: "bind (Inr x) f = f x"
  by (simp add: bind_def)

lemma bind_Inl_simp [simp]: "bind (Inl e) f = Inl e"
  by (simp add: bind_def)

lemma shape_result_of: "shape (result_of s d) = s"
  by (auto simp: result_of_def split: list.splits)

lemma atleast_1d_result_of: "atleast_1d (result_of s d) = d"
  by (auto simp: result_of_def split: list.splits)

lemma shape_ufunc1: "shape (ufunc1 f v) = shape v"
  by (cases v) (simp_all add: shape_result_of)

lemma atleast_1d_ufunc1: "atleast_1d (ufunc1 f v) = map f (atleast_1d v)"
  by (cases v) (simp_all add: atleast_1d_result_of)

text \<open>An operator that is no division, applied to any value and a number.\<close>

lemma ufunc2_total_scalar:
  "ufunc2 False g v (PyNum k) = Inr (ufunc1 (\<lambda>a. g a k) v)"
  by (cases v) simp_all

lemma sqrt_25: "sqrt 25 = 5"
  using real_sqrt_abs [of 5] by simp

lemma rebind_both: "(s::uncertainty)\<lparr>err := err new, nom := nom new\<rparr> = new"
  by simp

subsection \<open>Methods that build their result with the constructor\<close>

lemma Uncertainty_same_shape:
  "Uncertainty v e = Inr u \<Longrightarrow> shape (nom u) = shape (err u)"
  by (auto simp: Uncertainty_def split: if_splits)

lemma add_u_same_shape: "add_u x y = Inr u \<Longrightarrow> shape (nom u) = shape (err u)"
  unfolding add_u_def
  by (auto split: operand.splits dest!: bind_Inr Uncertainty_same_shape)

lemma sub_u_same_shape: "sub_u x y = Inr u \<Longrightarrow> shape (nom u) = shape (err u)"
  unfolding sub_u_def
  by (auto split: operand.splits dest!: bind_Inr Uncertainty_same_shape)

lemma mul_u_same_shape: "mul_u x y = Inr u \<Longrightarrow> shape (nom u) = shape (err u)"
  unfolding mul_u_def
  by (auto split: operand.splits dest!: bind_Inr Uncertainty_same_shape)

lemma truediv_u_same_shape: "truediv_u x y = Inr u \<Longrightarrow> shape (nom u) = shape (err u)"
  unfolding truediv_u_def
  by (auto split: operand.splits dest!: bind_Inr Uncertainty_same_shape)

lemma rtruediv_u_same_shape: "rtruediv_u x y = Inr u \<Longrightarrow> shape (nom u) = shape (err u)"
  unfolding rtruediv_u_def
  by (auto split: operand.splits dest!: bind_Inr Uncertainty_same_shape)

lemma floordiv_u_same_shape: "floordiv_u x y = Inr u \<Longrightarrow> shape (nom u) = shape (err u)"
  unfolding floordiv_u_def
  by (auto split: operand.splits dest!: bind_Inr Uncertainty_same_shape)

lemma rfloordiv_u_same_shape: "rfloordiv_u x y = Inr u \<Longrightarrow> shape (nom u) = shape (err u)"
  unfolding rfloordiv_u_def
  by (auto split: operand.splits dest!: bind_Inr Uncertainty_same_shape truediv_u_same_shape)

lemma mod_u_same_shape: "mod_u x y = Inr u \<Longrightarrow> shape (nom u) = shape (err u)"
  unfolding mod_u_def
  by (auto split: operand.splits dest!: bind_Inr Uncertainty_same_shape)

lemma rmod_u_same_shape: "rmod_u x v = Inr u \<Longrightarrow> shape (nom u) = shape (err u)"
  unfolding rmod_u_def
  by (auto dest!: bind_Inr Uncertainty_same_shape)

lemma pow_u_same_shape: "pow_u x y = Inr u \<Longrightarrow> shape (nom u) = shape (err u)"
  unfolding pow_u_def
  by (auto split: operand.splits dest!: bind_Inr Uncertainty_same_shape)

lemma rpow_u_same_shape: "rpow_u x v = Inr u \<Longrightarrow> shape (nom u) = shape (err u)"
  unfolding rpow_u_def
  by (auto dest!: bind_Inr Uncertainty_same_shape)

lemma abs_u_same_shape: "abs_u x = Inr u \<Longrightarrow> shape (nom u) = shape (err u)"
  unfolding abs_u_def by (rule Uncertainty_same_shape)

lemma pos_u_same_shape: "pos_u x = Inr u \<Longrightarrow> shape (nom u) = shape (err u)"
  unfolding pos_u_def by (rule Uncertainty_same_shape)

lemma neg_u_same_shape: "neg_u x = Inr u \<Longrightarrow> shape (nom u) = shape (err u)"
  unfolding neg_u_def by (rule Uncertainty_same_shape)

lemma copy_u_same_shape: "copy_u x = Inr u \<Longrightarrow> shape (nom u) = shape (err u)"
  unfolding copy_u_def by (rule Uncertainty_same_shape)

lemma from_sequence_same_shape: "from_sequence seq = Inr u \<Longrightarrow> shape (nom u) = shape (err u)"
  unfolding from_sequence_def
  by (auto dest!: bind_Inr Uncertainty_same_shape)

lemma real_u_same_shape: "real_u x = Inr u \<Longrightarrow> shape (nom u) = shape (err u)"
  unfolding real_u_def by (rule Uncertainty_same_shape)

lemma imag_u_same_shape: "imag_u x = Inr u \<Longrightarrow> shape (nom u) = shape (err u)"
  unfolding imag_u_def by (rule Uncertainty_same_shape)

lemma iter_u_same_shape:
  assumes "iter_u x = Inr items" and "Inr u \<in> set items"
  shows "shape (nom u) = shape (err u)"
proof -
  from assms(1) obtain vs es where "items = map (\<lambda>(v, e). Uncertainty v e) (zip vs es)"
    by (auto simp: iter_u_def dest!: bind_Inr)
  with assms(2) obtain v e where "Uncertainty v e = Inr u"
    by auto
  then show ?thesis
    by (rule Uncertainty_same_shape)
qed

lemma binary_same_shape:
  assumes "f \<in> {add_u, radd_u, sub_u, mul_u, rmul_u, truediv_u, rtruediv_u, floordiv_u,
                 rfloordiv_u, mod_u, pow_u}"
    and "f x y = Inr u"
  shows "shape (nom u) = shape (err u)"
  using assms
  by (auto simp: radd_u_def rmul_u_def
      dest: add_u_same_shape sub_u_same_shape mul_u_same_shape truediv_u_same_shape
        rtruediv_u_same_shape floordiv_u_same_shape rfloordiv_u_same_shape mod_u_same_shape
        pow_u_same_shape)

text \<open>
  An in-place method keeps the store in order: the cell it rebinds or hands out holds
  what the operator built.
\<close>

lemma inplace_store_same_shape:
  assumes f: "\<And>x y u. f x y = Inr u \<Longrightarrow> shape (nom u) = shape (err u)"
    and inv: "store_same_shape h"
    and run: "inplace f h self other = Inr (r', h')"
  shows "store_same_shape h'"
proof -
  from run obtain s where s: "cells h self = Some s"
    by (cases "cells h self") (simp_all add: inplace_def)
  from run s obtain oth where oth: "deref h other = Inr oth"
    by (cases "deref h other") (simp_all add: inplace_def)
  from run s oth obtain new where new: "f s oth = Inr new"
    by (cases "f s oth") (simp_all add: inplace_def)
  have ok: "same_shape new"
    using f [OF new] by (simp add: same_shape_def)
  show ?thesis
  proof (cases "is_np_duck_array (nom s)")
    case True
    with run s oth new have "h' = h\<lparr>cells := (cells h)(self \<mapsto> new)\<rparr>"
      by (auto simp: inplace_def rebind_both)
    with inv ok show ?thesis
      by (auto simp: store_same_shape_def list_all_iff split: option.splits)
  next
    case False
    with run s oth new
    have "h' = h\<lparr>cells := (cells h)(fresh h \<mapsto> new), fresh := Suc (fresh h)\<rparr>"
      by (auto simp: inplace_def alloc_def)
    with inv ok show ?thesis
      by (auto simp: store_same_shape_def list_all_iff split: option.splits)
  qed
qed

text \<open>
  Every instance that the constructor, a binary, reflected or unary operator,
  \<open>__copy__\<close>, \<open>real\<close>, \<open>imag\<close>, \<open>from_sequence\<close> or an iteration returns has a nominal
  value and an error of one shape, instances with \<open>nan\<close> or infinite elements included;
  an in-place operator leaves every instance of the store with that property; and the
  setter of \<open>shape\<close> does so when both of its assignments succeed.
\<close>

lemma constructor_built_same_shape:
  "(shape n \<noteq> shape e \<longrightarrow> Uncertainty n e = Inl AssertionError)
   \<and> (Uncertainty v er = Inr u \<longrightarrow> same_shape u)
   \<and> (f \<in> {add_u, radd_u, sub_u, mul_u, rmul_u, truediv_u, rtruediv_u, floordiv_u,
             rfloordiv_u, mod_u, pow_u}
        \<and> f x y = Inr u \<longrightarrow> same_shape u)
   \<and> (g \<in> {rmod_u, rpow_u} \<and> g x k = Inr u \<longrightarrow> same_shape u)
   \<and> (m \<in> {abs_u, pos_u, neg_u, copy_u, real_u, imag_u} \<and> m x = Inr u \<longrightarrow> same_shape u)
   \<and> (from_sequence seq = Inr u \<longrightarrow> same_shape u)
   \<and> (iter_u x = Inr items \<and> Inr u \<in> set items \<longrightarrow> same_shape u)
   \<and> (w \<in> {add_u, sub_u, mul_u, truediv_u, floordiv_u, mod_u, pow_u}
        \<and> store_same_shape h \<and> inplace w h r a = Inr (r', h') \<longrightarrow> store_same_shape h')"
proof (intro conjI impI)
  assume "shape n \<noteq> shape e"
  then show "Uncertainty n e = Inl AssertionError"
    by (simp add: Uncertainty_def)
next
  assume "Uncertainty v er = Inr u"
  then show "same_shape u"
    unfolding same_shape_def by (rule Uncertainty_same_shape)
next
  assume "f \<in> {add_u, radd_u, sub_u, mul_u, rmul_u, truediv_u, rtruediv_u, floordiv_u,
             rfloordiv_u, mod_u, pow_u} \<and> f x y = Inr u"
  then show "same_shape u"
    unfolding same_shape_def using binary_same_shape by blast
next
  assume "g \<in> {rmod_u, rpow_u} \<and> g x k = Inr u"
  then show "same_shape u"
    unfolding same_shape_def by (auto dest: rmod_u_same_shape rpow_u_same_shape)
next
  assume "m \<in> {abs_u, pos_u, neg_u, copy_u, real_u, imag_u} \<and> m x = Inr u"
  then show "same_shape u"
    unfolding same_shape_def
    by (auto dest: abs_u_same_shape pos_u_same_shape neg_u_same_shape copy_u_same_shape
        real_u_same_shape imag_u_same_shape)
next
  assume "from_sequence seq = Inr u"
  then show "same_shape u"
    unfolding same_shape_def by (rule from_sequence_same_shape)
next
  assume "iter_u x = Inr items \<and> Inr u \<in> set items"
  then show "same_shape u"
    unfolding same_shape_def by (auto dest: iter_u_same_shape)
next
  assume a: "w \<in> {add_u, sub_u, mul_u, truediv_u, floordiv_u, mod_u, pow_u}
        \<and> store_same_shape h \<and> inplace w h r a = Inr (r', h')"
  then have "w \<in> {add_u, radd_u, sub_u, mul_u, rmul_u, truediv_u, rtruediv_u, floordiv_u,
                 rfloordiv_u, mod_u, pow_u}"
    by auto
  then have "\<And>x y u. w x y = Inr u \<Longrightarrow> shape (nom u) = shape (err u)"
    by (rule binary_same_shape)
  with a show "store_same_shape h'"
    using inplace_store_same_shape by blast
qed

lemma shape_setter_both_succeed:
  assumes "cells h x = Some X" and "shape_setter h x new_shape = (Inr (), h')"
  shows "\<exists>X'. cells h' x = Some X' \<and> shape (nom X') = new_shape \<and> shape (err X') = new_shape"
proof -
  from assms obtain n where n: "set_shape (nom X) new_shape = Inr n"
    by (cases "set_shape (nom X) new_shape") (simp_all add: shape_setter_def)
  from assms n obtain e' where e': "set_shape (err X) new_shape = Inr e'"
    by (cases "set_shape (err X) new_shape") (simp_all add: shape_setter_def)
  have "shape n = new_shape"
    using n by (cases "nom X") (auto split: if_splits)
  moreover have "shape e' = new_shape"
    using e' by (cases "err X") (auto split: if_splits)
  moreover have "cells h' x = Some (X\<lparr>nom := n, err := e'\<rparr>)"
    using assms n e' by (auto simp: shape_setter_def)
  ultimately show ?thesis
    by simp
qed

subsection \<open>Operators on a valid instance and a plain number\<close>


lemma sub_u_plain_scalar:
  "valid X \<Longrightarrow> sub_u X (Plain (PyNum k))
     = Inr \<lparr>nom = ufunc1 (\<lambda>a. sub_num a k) (nom X), err = err X\<rparr>"
  by (simp add: sub_u_def sub_val_def ufunc2_total_scalar Uncertainty_def shape_ufunc1
      valid_def same_shape_def)

text \<open>
  The quotient of two scalar-backed instances with finite, nonzero nominal values: the
  error handed to the constructor is the quotient itself times the root, with no
  absolute value.
\<close>

lemma truediv_u_scalars:
  assumes "x \<noteq> 0" and "y \<noteq> 0"
  shows "truediv_u \<lparr>nom = PyNum (Fin x), err = PyNum (Fin ex)\<rparr>
           (Unc \<lparr>nom = PyNum (Fin y), err = PyNum (Fin ey)\<rparr>)
           = Uncertainty (PyNum (Fin (x / y)))
               (PyNum (Fin (x / y * sqrt ((ex / x)\<^sup>2 + (ey / y)\<^sup>2))))"
proof -
  have "\<not> (ex / x)\<^sup>2 + (ey / y)\<^sup>2 < 0"
    by (simp add: not_less)
  with assms show ?thesis
    by (simp add: truediv_u_def truediv_val_def mul_val_def add_val_def square_def
        sqrt_val_def rel_def relative_def)
qed

text \<open>
  A zero nominal value makes \<open>relative\<close> the number \<open>nan\<close>; the product goes on with it
  and is an instance whose error is \<open>nan\<close>.
\<close>

lemma mul_u_zero_nominal:
  "mul_u \<lparr>nom = PyNum (Fin 0), err = PyNum (Fin 1)\<rparr>
     (Unc \<lparr>nom = PyNum (Fin 2), err = PyNum (Fin (1/10))\<rparr>)
     = Inr \<lparr>nom = PyNum (Fin 0), err = PyNum NaN\<rparr>"
  by (simp add: mul_u_def mul_val_def add_val_def truediv_val_def square_def sqrt_val_def
      rel_def relative_def Uncertainty_def)

text \<open>
  \<open>relative\<close> takes the truth value of \<open>_nom != 0\<close>; for an array of two or more
  elements that raises \<open>ValueError\<close>, and so does the quotient of two such instances.
\<close>

lemma truediv_u_arrays:
  "truediv_u \<lparr>nom = NdArray [2] [Fin 2, Fin 4], err = NdArray [2] [Fin 1, Fin 1]\<rparr>
     (Unc \<lparr>nom = NdArray [2] [Fin 1, Fin 2], err = NdArray [2] [Fin 1, Fin 1]\<rparr>) = Inl ValueError"
  by (simp add: truediv_u_def truediv_val_def broadcast_shapes_def broadcast_to_def
      chunks_def result_of_def rel_def relative_def upt_rec)

text \<open>
  Floor division and modulo of a scalar-backed instance by a finite nonzero number give
  the nominal result and the error 0; on an array-backed instance the error \<open>0.0\<close> has
  not the shape of the nominal value and the constructor's assertion fails, also when
  the divisor is zero.
\<close>

lemma floordiv_mod_scalars:
  assumes "y \<noteq> 0"
  shows "floordiv_u \<lparr>nom = PyNum (Fin x), err = PyNum e\<rparr> (Plain (PyNum (Fin y)))
           = Inr \<lparr>nom = PyNum (Fin (of_int \<lfloor>x / y\<rfloor>)), err = PyNum (Fin 0)\<rparr>"
    and "mod_u \<lparr>nom = PyNum (Fin x), err = PyNum e\<rparr> (Plain (PyNum (Fin y)))
           = Inr \<lparr>nom = PyNum (Fin (x - y * of_int \<lfloor>x / y\<rfloor>)), err = PyNum (Fin 0)\<rparr>"
  using assms
  by (simp_all add: floordiv_u_def floordiv_val_def mod_u_def mod_val_def Uncertainty_def)

lemma floordiv_mod_array:
  "floordiv_u \<lparr>nom = NdArray [2] [Fin 7, Fin 8], err = NdArray [2] [Fin 1, Fin 1]\<rparr>
     (Plain (PyNum (Fin 2))) = Inl AssertionError"
  "mod_u \<lparr>nom = NdArray [2] [Fin 7, Fin 8], err = NdArray [2] [Fin 1, Fin 1]\<rparr>
     (Plain (PyNum (Fin 2))) = Inl AssertionError"
  "floordiv_u \<lparr>nom = NdArray [2] [Fin 7, Fin 8], err = NdArray [2] [Fin 1, Fin 1]\<rparr>
     (Plain (PyNum (Fin 0))) = Inl AssertionError"
  by (simp_all add: floordiv_u_def floordiv_val_def mod_u_def mod_val_def Uncertainty_def
      result_of_def)

section \<open>The claims\<close>

subsection \<open>Construction\<close>

text \<open>
  C1. When the nominal value and the error have the same shape and no element of the
  error is negative, \<open>Uncertainty(nominal, error)\<close> returns an instance, and its \<open>value\<close>
  and \<open>error\<close> properties are the two arguments.
\<close>

theorem construction_roundtrip:
  assumes "shape nominal = shape error"
    and "\<forall>x \<in> set (atleast_1d error). \<not> lt_num x (Fin 0)"
  shows "\<exists>inst. Uncertainty nominal error = Inr inst
           \<and> value_u inst = nominal \<and> error_u inst = error"
  using assms by (auto simp: Uncertainty_def value_u_def error_u_def list_ex_iff)

theorem construction_roundtrip_witness:
  "shape (NdArray [2] [Fin 3, Fin 4]) = shape (NdArray [2] [Fin 0, Fin (1/2)])
   \<and> list_all (\<lambda>x. \<not> lt_num x (Fin 0)) (atleast_1d (NdArray [2] [Fin 0, Fin (1/2)]))
   \<and> (\<exists>inst. Uncertainty (NdArray [2] [Fin 3, Fin 4]) (NdArray [2] [Fin 0, Fin (1/2)]) = Inr inst
        \<and> value_u inst = NdArray [2] [Fin 3, Fin 4]
        \<and> error_u inst = NdArray [2] [Fin 0, Fin (1/2)])"
  using construction_roundtrip [of "NdArray [2] [Fin 3, Fin 4]" "NdArray [2] [Fin 0, Fin (1/2)]"]
  by simp

text \<open>
  C2, as stated: whenever an element of the error is negative, construction raises
  \<open>NegativeStdDevError\<close>. It does not when the shapes differ too: the assertion on the
  shapes comes first, so \<open>Uncertainty(1, array([-1]))\<close> raises \<open>AssertionError\<close>.
\<close>

theorem negative_error_counterexample:
  "list_ex (\<lambda>x. lt_num x (Fin 0)) (atleast_1d (NdArray [1] [Fin (- 1)]))
   \<and> Uncertainty (PyNum (Fin 1)) (NdArray [1] [Fin (- 1)]) = Inl AssertionError
   \<and> Uncertainty (PyNum (Fin 1)) (NdArray [1] [Fin (- 1)]) \<noteq> Inl NegativeStdDevError"
  by (simp add: Uncertainty_def)

text \<open>
  C2, amended: when the nominal value and the error have the same shape and an element
  of the error is negative, construction raises \<open>NegativeStdDevError\<close> and returns no
  instance.
\<close>

theorem negative_error_rejected:
  assumes "shape nominal = shape error"
    and "\<exists>x \<in> set (atleast_1d error). lt_num x (Fin 0)"
  shows "Uncertainty nominal error = Inl NegativeStdDevError"
  using assms by (auto simp: Uncertainty_def list_ex_iff)

theorem negative_error_rejected_witness:
  "shape (NdArray [2] [Fin 3, Fin 4]) = shape (NdArray [2] [Fin 1, Fin (- 1/2)])
   \<and> list_ex (\<lambda>x. lt_num x (Fin 0)) (atleast_1d (NdArray [2] [Fin 1, Fin (- 1/2)]))
   \<and> Uncertainty (NdArray [2] [Fin 3, Fin 4]) (NdArray [2] [Fin 1, Fin (- 1/2)])
       = Inl NegativeStdDevError"
  using negative_error_rejected
    [of "NdArray [2] [Fin 3, Fin 4]" "NdArray [2] [Fin 1, Fin (- 1/2)]"]
  by simp

subsection \<open>Arithmetic\<close>

text \<open>
  C3. The claim gives the quotient of two instances the error
  \<open>|x/y| * sqrt((ex/x)^2 + (ey/y)^2)\<close>, non-negative also for a negative quotient.
  \<open>__truediv__\<close> multiplies the root by the quotient itself: for
  \<open>Uncertainty(-2, 0.1) / Uncertainty(2, 0.1)\<close> the error it computes is negative and the
  constructor raises \<open>NegativeStdDevError\<close>.
\<close>

theorem truediv_negative_quotient_raises:
  "Uncertainty (PyNum (Fin (- 2))) (PyNum (Fin (1/10)))
     = Inr \<lparr>nom = PyNum (Fin (- 2)), err = PyNum (Fin (1/10))\<rparr>
   \<and> Uncertainty (PyNum (Fin 2)) (PyNum (Fin (1/10)))
     = Inr \<lparr>nom = PyNum (Fin 2), err = PyNum (Fin (1/10))\<rparr>
   \<and> truediv_u \<lparr>nom = PyNum (Fin (- 2)), err = PyNum (Fin (1/10))\<rparr>
       (Unc \<lparr>nom = PyNum (Fin 2), err = PyNum (Fin (1/10))\<rparr>)
       = Inl NegativeStdDevError"
proof -
  have "0 < sqrt (((1/10) / (- 2))\<^sup>2 + ((1/10) / 2)\<^sup>2 :: real)"
    by (simp add: power2_eq_square)
  then have "Uncertainty (PyNum (Fin (- 2 / 2)))
      (PyNum (Fin (- 2 / 2 * sqrt (((1/10) / (- 2))\<^sup>2 + ((1/10) / 2)\<^sup>2))))
      = Inl NegativeStdDevError"
    by (simp add: Uncertainty_def)
  then show ?thesis
    using truediv_u_scalars [of "- 2" 2 "1/10" "1/10"]
    by (simp add: Uncertainty_def)
qed

text \<open>
  C4. The claim gives \<open>X ** y\<close> the nominal value \<open>x ** y\<close>. \<open>__pow__\<close> computes \<open>x % y\<close>:
  \<open>Uncertainty(2, 0.1) ** 3\<close> has the nominal value \<open>2 % 3 = 2\<close>, not \<open>2 ** 3 = 8\<close>.
\<close>

theorem power_computes_modulo:
  "pow_u \<lparr>nom = PyNum (Fin 2), err = PyNum (Fin (1/10))\<rparr> (Plain (PyNum (Fin 3)))
     = Inr \<lparr>nom = PyNum (Fin 2), err = PyNum (Fin 0)\<rparr>
   \<and> PyNum (Fin 2) \<noteq> PyNum (Fin (2 ^ 3))"
  by (simp add: pow_u_def mod_val_def Uncertainty_def)

text \<open>
  C5, as stated: for every plain number \<open>k\<close>, \<open>X * k\<close> is the instance with the nominal
  value \<open>x*k\<close> and the error \<open>e*k\<close>. For a negative \<open>k\<close> and a positive error there is no
  such instance: \<open>Uncertainty(1, 1) * (-1)\<close> raises \<open>NegativeStdDevError\<close>.
\<close>

theorem scalar_product_counterexample:
  "Uncertainty (PyNum (Fin 1)) (PyNum (Fin 1)) = Inr \<lparr>nom = PyNum (Fin 1), err = PyNum (Fin 1)\<rparr>
   \<and> mul_u \<lparr>nom = PyNum (Fin 1), err = PyNum (Fin 1)\<rparr> (Plain (PyNum (Fin (- 1))))
       = Inl NegativeStdDevError"
  by (simp add: mul_u_def mul_val_def Uncertainty_def)

text \<open>
  C5, amended: for an instance \<open>X = (x, e)\<close> and a plain number \<open>k\<close> such that no element
  of \<open>e*k\<close> is negative (every \<open>k \<ge> 0\<close>), \<open>X * k\<close> is the instance whose nominal value is
  \<open>x*k\<close> and whose error is \<open>e*k\<close>, element by element, with no quadrature.
\<close>

theorem scalar_product:
  assumes "shape x = shape e"
    and "\<forall>a \<in> set (atleast_1d e). \<not> lt_num (mul_num a k) (Fin 0)"
  shows "\<exists>xk ek. mul_val x (PyNum k) = Inr xk \<and> mul_val e (PyNum k) = Inr ek
           \<and> atleast_1d xk = map (\<lambda>a. mul_num a k) (atleast_1d x)
           \<and> atleast_1d ek = map (\<lambda>a. mul_num a k) (atleast_1d e)
           \<and> mul_u \<lparr>nom = x, err = e\<rparr> (Plain (PyNum k)) = Inr \<lparr>nom = xk, err = ek\<rparr>"
proof -
  let ?xk = "ufunc1 (\<lambda>a. mul_num a k) x" and ?ek = "ufunc1 (\<lambda>a. mul_num a k) e"
  have x: "mul_val x (PyNum k) = Inr ?xk" and e: "mul_val e (PyNum k) = Inr ?ek"
    by (simp_all add: mul_val_def ufunc2_total_scalar)
  have "\<not> list_ex (\<lambda>a. lt_num a (Fin 0)) (atleast_1d ?ek)"
    using assms(2) by (auto simp: atleast_1d_ufunc1 list_ex_iff)
  then have "Uncertainty ?xk ?ek = Inr \<lparr>nom = ?xk, err = ?ek\<rparr>"
    using assms(1) by (simp add: Uncertainty_def shape_ufunc1)
  then have "mul_u \<lparr>nom = x, err = e\<rparr> (Plain (PyNum k)) = Inr \<lparr>nom = ?xk, err = ?ek\<rparr>"
    by (simp add: mul_u_def x e)
  with x e show ?thesis
    by (simp add: atleast_1d_ufunc1)
qed

theorem scalar_product_witness:
  "shape (NdArray [2] [Fin 1, Fin (- 2)]) = shape (NdArray [2] [Fin (1/2), Fin 0])
   \<and> list_all (\<lambda>a. \<not> lt_num (mul_num a (Fin 3)) (Fin 0))
        (atleast_1d (NdArray [2] [Fin (1/2), Fin 0]))
   \<and> mul_u \<lparr>nom = NdArray [2] [Fin 1, Fin (- 2)], err = NdArray [2] [Fin (1/2), Fin 0]\<rparr>
        (Plain (PyNum (Fin 3)))
       = Inr \<lparr>nom = NdArray [2] [Fin 3, Fin (- 6)], err = NdArray [2] [Fin (3/2), Fin 0]\<rparr>"
  using scalar_product [of "NdArray [2] [Fin 1, Fin (- 2)]" "NdArray [2] [Fin (1/2), Fin 0]" "Fin 3"]
  by (auto simp: mul_val_def result_of_def)

subsection \<open>Comparison\<close>

text \<open>
  C6. Equality and the four orderings of two instances are the comparison of their
  nominal values, whatever the errors; equality with a plain number compares the
  nominal value with that number. \<open>Uncertainty(3, 0.1) == Uncertainty(3, 99.0)\<close> and
  \<open>Uncertainty(3, 0.1) == 3\<close> are true.
\<close>

theorem comparisons_use_nominal_only:
  "eq_u \<lparr>nom = x, err = ex\<rparr> (Unc \<lparr>nom = y, err = ey\<rparr>) = eq_val x y
   \<and> lt_u \<lparr>nom = x, err = ex\<rparr> (Unc \<lparr>nom = y, err = ey\<rparr>) = operator_lt x y
   \<and> le_u \<lparr>nom = x, err = ex\<rparr> (Unc \<lparr>nom = y, err = ey\<rparr>) = operator_le x y
   \<and> gt_u \<lparr>nom = x, err = ex\<rparr> (Unc \<lparr>nom = y, err = ey\<rparr>) = operator_gt x y
   \<and> ge_u \<lparr>nom = x, err = ex\<rparr> (Unc \<lparr>nom = y, err = ey\<rparr>) = operator_ge x y
   \<and> compare \<lparr>nom = x, err = ex\<rparr> (Unc \<lparr>nom = y, err = ey\<rparr>) op = op x y
   \<and> eq_u \<lparr>nom = x, err = ex\<rparr> (Plain k) = eq_val x k
   \<and> eq_u \<lparr>nom = PyNum (Fin 3), err = PyNum (Fin (1/10))\<rparr>
        (Unc \<lparr>nom = PyNum (Fin 3), err = PyNum (Fin 99)\<rparr>)
       = Inr (PyBool True)
   \<and> eq_u \<lparr>nom = PyNum (Fin 3), err = PyNum (Fin (1/10))\<rparr> (Plain (PyNum (Fin 3)))
       = Inr (PyBool True)"
  by (simp add: eq_u_def lt_u_def le_u_def gt_u_def ge_u_def compare_def eq_val_def)

subsection \<open>The shape invariant\<close>

text \<open>
  C7. The claim gives every instance a nominal value and an error of one shape, after
  any operation. The constructor asserts it and the methods that build their result
  with the constructor keep it (\<open>constructor_built_same_shape\<close>), but the setter of
  \<open>shape\<close> assigns the two shapes one after the other: on
  \<open>X = Uncertainty(np.array(1.0), 0.5)\<close>, which the constructor accepts, \<open>X.shape = (1,)\<close>
  reshapes \<open>_nom\<close>, raises \<open>AttributeError\<close> on \<open>_err\<close>, and leaves \<open>X\<close> with the shapes
  \<open>(1,)\<close> and \<open>()\<close>.
\<close>

theorem shape_setter_breaks_invariant:
  "Uncertainty (NdArray [] [Fin 1]) (PyNum (Fin (1/2)))
     = Inr \<lparr>nom = NdArray [] [Fin 1], err = PyNum (Fin (1/2))\<rparr>
   \<and> cells zero_dim_store 0 = Some \<lparr>nom = NdArray [] [Fin 1], err = PyNum (Fin (1/2))\<rparr>
   \<and> same_shape \<lparr>nom = NdArray [] [Fin 1], err = PyNum (Fin (1/2))\<rparr>
   \<and> shape_setter zero_dim_store 0 [1]
       = (Inl AttributeError,
          zero_dim_store\<lparr>cells := (cells zero_dim_store)
            (0 \<mapsto> \<lparr>nom = NdArray [1] [Fin 1], err = PyNum (Fin (1/2))\<rparr>)\<rparr>)
   \<and> shape (NdArray [1] [Fin 1]) = [1]
   \<and> shape (PyNum (Fin (1/2))) = []
   \<and> \<not> same_shape \<lparr>nom = NdArray [1] [Fin 1], err = PyNum (Fin (1/2))\<rparr>"
  by (simp add: Uncertainty_def zero_dim_store_def shape_setter_def same_shape_def)

subsection \<open>In-place addition\<close>



subsection \<open>Reflected subtraction\<close>

text \<open>
  C9. For an instance \<open>X\<close> and a plain operand \<open>y\<close>, \<open>__rsub__\<close> never returns an
  instance: whenever the difference \<open>X - y\<close> and its negation are computed, the call
  returns \<open>None\<close>, and for a valid \<open>X\<close> and a plain number they always are.
\<close>

theorem rsub_returns_None:
  "(\<forall>u. rsub_u X (Plain y) \<noteq> Inr (Some u))
   \<and> (sub_u X (Plain y) = Inr d \<and> neg_u d = Inr n \<longrightarrow> rsub_u X (Plain y) = Inr None)
   \<and> (valid X \<longrightarrow> rsub_u X (Plain (PyNum k)) = Inr None)"
proof (intro conjI)
  show "\<forall>u. rsub_u X (Plain y) \<noteq> Inr (Some u)"
    by (auto simp: rsub_u_def dest!: bind_Inr)
  show "sub_u X (Plain y) = Inr d \<and> neg_u d = Inr n \<longrightarrow> rsub_u X (Plain y) = Inr None"
    by (simp add: rsub_u_def)
  show "valid X \<longrightarrow> rsub_u X (Plain (PyNum k)) = Inr None"
    by (simp add: rsub_u_def sub_u_plain_scalar neg_u_def neg_val_def Uncertainty_def
        shape_ufunc1 valid_def same_shape_def)
qed

theorem rsub_returns_None_witness:
  "valid \<lparr>nom = PyNum (Fin 2), err = PyNum (Fin (1/10))\<rparr>
   \<and> sub_u \<lparr>nom = PyNum (Fin 2), err = PyNum (Fin (1/10))\<rparr> (Plain (PyNum (Fin 5)))
       = Inr \<lparr>nom = PyNum (Fin (- 3)), err = PyNum (Fin (1/10))\<rparr>
   \<and> neg_u \<lparr>nom = PyNum (Fin (- 3)), err = PyNum (Fin (1/10))\<rparr>
       = Inr \<lparr>nom = PyNum (Fin 3), err = PyNum (Fin (1/10))\<rparr>
   \<and> rsub_u \<lparr>nom = PyNum (Fin 2), err = PyNum (Fin (1/10))\<rparr> (Plain (PyNum (Fin 5))) = Inr None"
  using rsub_returns_None [of "\<lparr>nom = PyNum (Fin 2), err = PyNum (Fin (1/10))\<rparr>" "PyNum (Fin 5)"
      "\<lparr>nom = PyNum (Fin (- 3)), err = PyNum (Fin (1/10))\<rparr>"
      "\<lparr>nom = PyNum (Fin 3), err = PyNum (Fin (1/10))\<rparr>" "Fin 5"]
  by (simp add: valid_def same_shape_def sub_u_def sub_val_def sub_num_def neg_u_def neg_val_def
      Uncertainty_def)

subsection \<open>Truth value\<close>

text \<open>
  C10. The truth value of an instance is the truth value of its nominal value; the
  error has no part in it, and \<open>Uncertainty(0, 5.0)\<close> is false.
\<close>

theorem truth_value_is_nominal:
  "bool_u \<lparr>nom = x, err = e\<rparr> = py_bool x
   \<and> bool_u \<lparr>nom = x, err = e\<rparr> = bool_u \<lparr>nom = x, err = e'\<rparr>
   \<and> bool_u \<lparr>nom = PyNum (Fin 0), err = PyNum (Fin 5)\<rparr> = Inr False"
  by (simp add: bool_u_def)

end
